theory Spec2Isabelle
  imports Main "HOL-Library.Multiset"
begin

section \<open>Data model\<close>

text \<open>
  The server of the platform is the \<^verbatim>\<open>server.js\<close> listed in BACKEND_README.md; the
  client is the React code under \<^verbatim>\<open>src/pages\<close>. JavaScript strings are modelled as
  \<^typ>\<open>string\<close>, one \<^typ>\<open>char\<close> per code unit below 256. Object identifiers
  (\<^verbatim>\<open>_id\<close>, \<^verbatim>\<open>userId\<close>) are strings that already have the shape of an ObjectId.
\<close>

type_synonym oid = string

text \<open>\<^verbatim>\<open>userSchema\<close>: email and (hashed) password.\<close>

record user =
  u_id :: oid
  email :: string
  password :: string

text \<open>
  \<^verbatim>\<open>projectSchema\<close>: name, systemPrompt, userId, createdAt. The field \<^verbatim>\<open>_id\<close> is
  written \<open>p_id\<close>; \<open>createdAt\<close> is a Date, in milliseconds.
\<close>

record project =
  p_id :: oid
  name :: string
  systemPrompt :: string
  userId :: oid
  createdAt :: int

text \<open>
  The store behind mongoose: the two collections, and whether the connection that
  \<^verbatim>\<open>mongoose.connect\<close> opens is there. A query on a store that is not connected throws.
\<close>

record db =
  connected :: bool
  users :: "user list"
  projects :: "project list"

text \<open>
  A chat turn, \<^verbatim>\<open>interface Message\<close> of Chat.tsx. The client's type restricts the role
  to \<^verbatim>\<open>'user' | 'assistant'\<close>; on the server the role is whatever string the JSON
  body carries, so it is a string here.
\<close>

record message =
  role :: string
  content :: string

text \<open>Whatever a \<^verbatim>\<open>try\<close> block can throw.\<close>

datatype exn =
    Error
  | TypeError
  | SyntaxError
  | JsonWebTokenError
  | TokenExpiredError
  | NotBeforeError
  | ValidationError
  | MongooseError
  | FetchFailed
  | FetchTimedOut

text \<open>What \<^verbatim>\<open>res.status(n).json(...)\<close> sends: the status and the JSON body.\<close>

datatype json_body =
    Message string
  | Project_json project
  | Projects_json "project list"

type_synonym response = "nat \<times> json_body"

section \<open>Auth middleware\<close>

text \<open>
  \<^verbatim>\<open>String.prototype.replace\<close> with a string pattern: the first occurrence only.
\<close>

fun replace :: "string \<Rightarrow> string \<Rightarrow> string \<Rightarrow> string" where
  "replace pat rep [] = (if pat = [] then rep else [])"
| "replace pat rep (c # cs) =
     (if take (length pat) (c # cs) = pat then rep @ drop (length pat) (c # cs)
      else c # replace pat rep cs)"

text \<open>
  The body of the \<^verbatim>\<open>try\<close> of \<^verbatim>\<open>auth\<close>. \<open>verify\<close> stands for
  \<^verbatim>\<open>jwt.verify(_, process.env.JWT_SECRET)\<close> at the time of the request: it throws, or
  returns the payload, whose \<^verbatim>\<open>userId\<close> is read. An absent header makes \<^verbatim>\<open>?.\<close> give
  \<^verbatim>\<open>undefined\<close>; \<^verbatim>\<open>!token\<close> holds for \<^verbatim>\<open>undefined\<close> and for the empty string.
\<close>

definition auth_try :: "(string \<Rightarrow> exn + oid) \<Rightarrow> string option \<Rightarrow> exn + oid" where
  "auth_try verify hdr =
     (case hdr of
        None \<Rightarrow> Inl Error
      | Some h \<Rightarrow>
          (let token = replace ''Bearer '' '''' h in
           if token = [] then Inl Error
           else (case verify token of
                   Inl e \<Rightarrow> Inl e
                 | Inr decoded_userId \<Rightarrow> Inr decoded_userId)))"

text \<open>
  \<^verbatim>\<open>auth\<close>: the \<^verbatim>\<open>catch\<close> answers 401 whatever was thrown; otherwise \<^verbatim>\<open>next()\<close> runs
  with \<^verbatim>\<open>req.userId\<close> set (\<open>Inr\<close>).
\<close>

definition auth :: "(string \<Rightarrow> exn + oid) \<Rightarrow> string option \<Rightarrow> response + oid" where
  "auth verify hdr =
     (case auth_try verify hdr of
        Inl e \<Rightarrow> Inl (401, Message ''Please authenticate'')
      | Inr uid \<Rightarrow> Inr uid)"

section \<open>Project routes\<close>

text \<open>
  \<^verbatim>\<open>Project.findOne({ _id, userId })\<close>: the first document that matches both fields, or
  \<^verbatim>\<open>null\<close>.
\<close>

definition Project_findOne :: "db \<Rightarrow> oid \<Rightarrow> oid \<Rightarrow> exn + project option" where
  "Project_findOne d pid uid =
     (if connected d
      then Inr (find (\<lambda>p. p_id p = pid \<and> userId p = uid) (projects d))
      else Inl MongooseError)"

text \<open>
  \<^verbatim>\<open>Project.find({ userId }).sort({ createdAt: -1 })\<close>: the documents of that user, by
  descending creation time.
\<close>

definition Project_find_sorted :: "db \<Rightarrow> oid \<Rightarrow> exn + project list" where
  "Project_find_sorted d uid =
     (if connected d
      then Inr (sort_key (\<lambda>p. - createdAt p) (filter (\<lambda>p. userId p = uid) (projects d)))
      else Inl MongooseError)"

text \<open>\<^verbatim>\<open>app.get('/projects', auth, ...)\<close>, after \<^verbatim>\<open>auth\<close>.\<close>

definition get_projects :: "db \<Rightarrow> oid \<Rightarrow> response" where
  "get_projects d uid =
     (case Project_find_sorted d uid of
        Inl e \<Rightarrow> (500, Message ''Server error'')
      | Inr ps \<Rightarrow> (200, Projects_json ps))"

text \<open>
  The body of \<^verbatim>\<open>POST /projects\<close>: each field is absent or a string.
\<close>

record project_body =
  b_name :: "string option"
  b_systemPrompt :: "string option"

text \<open>
  The schema's \<^verbatim>\<open>required: true\<close> on a String path: validation throws unless the
  value is there and is not the empty string. Nothing in the schema trims.
\<close>

definition required :: "string option \<Rightarrow> exn + string" where
  "required v =
     (case v of
        None \<Rightarrow> Inl ValidationError
      | Some s \<Rightarrow> if s = [] then Inl ValidationError else Inr s)"

text \<open>
  \<^verbatim>\<open>new Project({...})\<close> followed by \<^verbatim>\<open>project.save()\<close>. \<open>new_id\<close> is the ObjectId
  mongoose generates and \<open>now\<close> the value of \<^verbatim>\<open>Date.now\<close>. Validation runs before the
  write.
\<close>

definition Project_save ::
  "oid \<Rightarrow> int \<Rightarrow> db \<Rightarrow> oid \<Rightarrow> project_body \<Rightarrow> exn + (db \<times> project)" where
  "Project_save new_id now d uid b =
     (case required (b_name b) of
        Inl e \<Rightarrow> Inl e
      | Inr n \<Rightarrow>
          (case required (b_systemPrompt b) of
             Inl e \<Rightarrow> Inl e
           | Inr s \<Rightarrow>
               if \<not> connected d then Inl MongooseError
               else (let p = \<lparr>p_id = new_id, name = n, systemPrompt = s, userId = uid,
                               createdAt = now\<rparr>
                     in Inr (d\<lparr>projects := projects d @ [p]\<rparr>, p))))"

text \<open>\<^verbatim>\<open>app.post('/projects', auth, ...)\<close>, after \<^verbatim>\<open>auth\<close>.\<close>

definition post_projects ::
  "oid \<Rightarrow> int \<Rightarrow> db \<Rightarrow> oid \<Rightarrow> project_body \<Rightarrow> db \<times> response" where
  "post_projects new_id now d uid b =
     (case Project_save new_id now d uid b of
        Inl e \<Rightarrow> (d, (500, Message ''Server error''))
      | Inr (d', p) \<Rightarrow> (d', (201, Project_json p)))"

section \<open>Chat route\<close>

text \<open>
  The body of \<^verbatim>\<open>POST /chat\<close> as the handler destructures it. \<open>body_messages\<close> is
  \<open>None\<close> when the field is absent, so that the spread \<^verbatim>\<open>...messages\<close> throws.
\<close>

record chat_body =
  projectId :: oid
  body_messages :: "message list option"

text \<open>The JSON sent to the completion endpoint.\<close>

record chat_request =
  model :: string
  messages :: "message list"

text \<open>
  What comes back. \<^verbatim>\<open>fetch\<close> rejects (\<open>Fetch_rejected\<close>), or gives a response whose
  \<^verbatim>\<open>json()\<close> rejects (\<open>Json_rejected\<close>; a body that is no object, on which reading
  \<^verbatim>\<open>data.error\<close> throws, ends in the same \<^verbatim>\<open>catch\<close>) or gives \<^verbatim>\<open>data\<close>. Of
  \<^verbatim>\<open>data\<close> the handler reads \<^verbatim>\<open>error\<close>
  (\<open>None\<close>: absent or falsy; \<open>Some m\<close>: there, with \<^verbatim>\<open>error.message\<close> being \<open>m\<close>) and
  the \<^verbatim>\<open>message.content\<close> of each element of \<^verbatim>\<open>choices\<close> (no array and an empty array
  both make \<^verbatim>\<open>data.choices[0].message\<close> throw).
\<close>

record completion =
  error :: "string option option"
  choices :: "string list"

datatype json_outcome = Json_rejected | Json_data completion

datatype upstream_outcome = Fetch_rejected exn | Fetch_response json_outcome

text \<open>
  The body of the \<^verbatim>\<open>try\<close> of the handler, with the list of the requests it has sent
  upstream. \<open>upstream\<close> is the provider: what a request to it results in.
\<close>

definition chat_try ::
  "(chat_request \<Rightarrow> upstream_outcome) \<Rightarrow> db \<Rightarrow> oid \<Rightarrow> chat_body
    \<Rightarrow> (exn + response) \<times> chat_request list" where
  "chat_try upstream d uid b =
     (case Project_findOne d (projectId b) uid of
        Inl e \<Rightarrow> (Inl e, [])
      | Inr None \<Rightarrow> (Inr (404, Message ''Project not found''), [])
      | Inr (Some project) \<Rightarrow>
          (case body_messages b of
             None \<Rightarrow> (Inl TypeError, [])
           | Some msgs \<Rightarrow>
               (let req = \<lparr>model = ''openai/gpt-3.5-turbo'',
                           messages = \<lparr>role = ''system'', content = systemPrompt project\<rparr> # msgs\<rparr>
                in case upstream req of
                     Fetch_rejected e \<Rightarrow> (Inl e, [req])
                   | Fetch_response Json_rejected \<Rightarrow> (Inl SyntaxError, [req])
                   | Fetch_response (Json_data data) \<Rightarrow>
                       (case error data of
                          Some m \<Rightarrow>
                            (Inr (500, Message (case m of
                                                  None \<Rightarrow> ''LLM error''
                                                | Some s \<Rightarrow> if s = [] then ''LLM error'' else s)),
                             [req])
                        | None \<Rightarrow>
                            (case choices data of
                               [] \<Rightarrow> (Inl TypeError, [req])
                             | c # _ \<Rightarrow> (Inr (200, Message c), [req]))))))"

text \<open>
  \<^verbatim>\<open>app.post('/chat', auth, ...)\<close>, after \<^verbatim>\<open>auth\<close>: the store as the handler leaves it,
  the response, and the requests sent upstream.
\<close>

definition chat ::
  "(chat_request \<Rightarrow> upstream_outcome) \<Rightarrow> db \<Rightarrow> oid \<Rightarrow> chat_body
    \<Rightarrow> db \<times> response \<times> chat_request list" where
  "chat upstream d uid b =
     (case chat_try upstream d uid b of
        (Inl e, sent) \<Rightarrow> (d, (500, Message ''Failed to get response''), sent)
      | (Inr r, sent) \<Rightarrow> (d, r, sent))"

text \<open>
  An uploaded file, and the multipart form in which the chat page posts a turn: the
  \<^verbatim>\<open>FormData\<close> with the fields \<^verbatim>\<open>projectId\<close> and \<^verbatim>\<open>messages\<close>, and the part
  \<^verbatim>\<open>file\<close> when a file is selected.
\<close>

record attachment =
  file_name :: string
  file_type :: string
  file_bytes :: string

record form_data =
  fd_projectId :: string
  fd_messages :: "message list"
  fd_file :: "attachment option"

text \<open>
  What a request to \<^verbatim>\<open>/chat\<close> carries besides its Authorization header: a JSON body
  with the two fields, or a multipart form. A file travels in a multipart form only.
\<close>

datatype http_payload = Json_payload chat_body | Multipart_payload form_data

record chat_http_request =
  authorization :: "string option"
  payload :: http_payload

text \<open>
  \<^verbatim>\<open>app.use(express.json())\<close>, the only body parser of \<^verbatim>\<open>server.js\<close>: a JSON body
  becomes \<^verbatim>\<open>req.body\<close>; a body of another content type is not read, and \<^verbatim>\<open>req.body\<close>
  is what the installed express leaves there, an empty object up to version 4 and
  \<^verbatim>\<open>undefined\<close> from version 5. The README installs express without fixing a version, so
  the version is a parameter.
\<close>

datatype express_version = Express_4 | Express_5

datatype req_body = Body_undefined | Body_empty | Body_fields chat_body

definition express_json :: "express_version \<Rightarrow> http_payload \<Rightarrow> req_body" where
  "express_json v p =
     (case p of
        Json_payload b \<Rightarrow> Body_fields b
      | Multipart_payload fd \<Rightarrow> (case v of Express_4 \<Rightarrow> Body_empty | Express_5 \<Rightarrow> Body_undefined))"

text \<open>
  The handler from \<^verbatim>\<open>req.body\<close> on. Destructuring \<^verbatim>\<open>undefined\<close> throws inside the
  \<^verbatim>\<open>try\<close>. Of an empty object both fields are \<^verbatim>\<open>undefined\<close>: a filter whose \<^verbatim>\<open>_id\<close>
  is \<^verbatim>\<open>undefined\<close> matches no document, so \<^verbatim>\<open>findOne\<close> gives \<^verbatim>\<open>null\<close> (or throws when
  the store is not connected), and the answer is sent before \<^verbatim>\<open>messages\<close> is touched.
\<close>

definition chat_handler ::
  "(chat_request \<Rightarrow> upstream_outcome) \<Rightarrow> db \<Rightarrow> oid \<Rightarrow> req_body
    \<Rightarrow> db \<times> response \<times> chat_request list" where
  "chat_handler upstream d uid rb =
     (case rb of
        Body_undefined \<Rightarrow> (d, (500, Message ''Failed to get response''), [])
      | Body_empty \<Rightarrow>
          (if connected d then (d, (404, Message ''Project not found''), [])
           else (d, (500, Message ''Failed to get response''), []))
      | Body_fields b \<Rightarrow> chat upstream d uid b)"

text \<open>The whole route: the body parser, \<^verbatim>\<open>auth\<close>, then the handler.\<close>

definition route_chat ::
  "express_version \<Rightarrow> (string \<Rightarrow> exn + oid) \<Rightarrow> (chat_request \<Rightarrow> upstream_outcome) \<Rightarrow> db
    \<Rightarrow> chat_http_request \<Rightarrow> db \<times> response \<times> chat_request list" where
  "route_chat v verify upstream d req =
     (case auth verify (authorization req) of
        Inl r \<Rightarrow> (d, r, [])
      | Inr uid \<Rightarrow> chat_handler upstream d uid (express_json v (payload req)))"

section \<open>The chat page (Chat.tsx)\<close>

text \<open>
  \<^verbatim>\<open>String.prototype.trim\<close>: white space and line terminators are dropped at both ends.
  Below 256 these are tab, line feed, vertical tab, form feed, carriage return, space and
  the no-break space.
\<close>

definition is_ws :: "char \<Rightarrow> bool" where
  "is_ws c = (c \<in> set [CHR 0x09, CHR 0x0A, CHR 0x0B, CHR 0x0C, CHR 0x0D, CHR 0x20, CHR 0xA0])"

definition trim :: "string \<Rightarrow> string" where
  "trim s = rev (dropWhile is_ws (rev (dropWhile is_ws s)))"

text \<open>
  The state of the component that \<^verbatim>\<open>sendMessage\<close> reads and writes: the route's
  \<^verbatim>\<open>projectId\<close>, the token in \<^verbatim>\<open>localStorage\<close>, and the \<^verbatim>\<open>useState\<close> cells.
\<close>

record chat_state =
  route_projectId :: string
  stored_token :: "string option"
  st_messages :: "message list"
  input :: string
  isSending :: bool
  selectedFile :: "attachment option"

text \<open>The request \<^verbatim>\<open>axios.post\<close> sends with the form of a turn.\<close>

record chat_post =
  post_authorization :: string
  post_form :: form_data

text \<open>
  What \<^verbatim>\<open>axios.post\<close> results in: a response, of which \<^verbatim>\<open>data.message\<close> is read, or an
  exception.
\<close>

datatype post_outcome = Post_ok string | Post_failed

text \<open>
  \<^verbatim>\<open>sendMessage\<close>, run to its end against the server \<open>post\<close>: the state it leaves, the
  requests it has posted, and the toasts it has raised. A template literal prints
  \<^verbatim>\<open>null\<close> as the text null.
\<close>

definition sendMessage ::
  "(chat_post \<Rightarrow> post_outcome) \<Rightarrow> chat_state \<Rightarrow> chat_state \<times> chat_post list \<times> string list" where
  "sendMessage post st =
     (if (trim (input st) = [] \<and> selectedFile st = None) \<or> isSending st then (st, [], [])
      else
        (let userMessage = \<lparr>role = ''user'',
                             content = (if input st = [] then ''Please analyze the uploaded file''
                                        else input st)\<rparr>;
             updatedMessages = st_messages st @ [userMessage];
             formData = \<lparr>fd_projectId = route_projectId st, fd_messages = updatedMessages,
                         fd_file = selectedFile st\<rparr>;
             request = \<lparr>post_authorization =
                           ''Bearer '' @ (case stored_token st of None \<Rightarrow> ''null'' | Some t \<Rightarrow> t),
                        post_form = formData\<rparr>
         in case post request of
              Post_ok m \<Rightarrow>
                (st\<lparr>st_messages := updatedMessages @ [\<lparr>role = ''assistant'', content = m\<rparr>],
                    input := [], selectedFile := None, isSending := False\<rparr>,
                 [request], [])
            | Post_failed \<Rightarrow>
                (st\<lparr>st_messages := updatedMessages, input := [], isSending := False\<rparr>,
                 [request], [''Failed to send message''])))"

text \<open>
  \<^verbatim>\<open>handleKeyDown\<close> on the text area: Enter without Shift sends.
\<close>

definition handleKeyDown ::
  "(chat_post \<Rightarrow> post_outcome) \<Rightarrow> chat_state \<Rightarrow> string \<Rightarrow> bool
    \<Rightarrow> chat_state \<times> chat_post list \<times> string list" where
  "handleKeyDown post st key shiftKey =
     (if key = ''Enter'' \<and> \<not> shiftKey then sendMessage post st else (st, [], []))"

text \<open>
  The Send button: its \<^verbatim>\<open>disabled\<close> attribute, and a click on it. A disabled button
  does not run its \<^verbatim>\<open>onClick\<close>.
\<close>

definition send_disabled :: "chat_state \<Rightarrow> bool" where
  "send_disabled st = (trim (input st) = [] \<or> isSending st)"

definition click_send ::
  "(chat_post \<Rightarrow> post_outcome) \<Rightarrow> chat_state \<Rightarrow> chat_state \<times> chat_post list \<times> string list" where
  "click_send post st = (if send_disabled st then (st, [], []) else sendMessage post st)"

section \<open>The dashboard's project form (Dashboard.tsx)\<close>

text \<open>
  The two fields of the form, both marked \<^verbatim>\<open>required\<close>: the browser submits the form
  only when neither value is empty, and \<^verbatim>\<open>handleCreateProject\<close> then posts the state
  as it is.
\<close>

record new_project =
  np_name :: string
  np_systemPrompt :: string

definition submit_form :: "new_project \<Rightarrow> project_body option" where
  "submit_form np =
     (if np_name np = [] \<or> np_systemPrompt np = [] then None
      else Some \<lparr>b_name = Some (np_name np), b_systemPrompt = Some (np_systemPrompt np)\<rparr>)"

section \<open>A store, a provider and a chat page to run the definitions on\<close>

definition pirate :: project where
  "pirate = \<lparr>p_id = ''p1'', name = ''Pirate'', systemPrompt = ''You are a pirate.'',
              userId = ''u1'', createdAt = 1000\<rparr>"

definition parrot :: project where
  "parrot = \<lparr>p_id = ''p2'', name = ''Parrot'', systemPrompt = ''Repeat what you hear.'',
              userId = ''u2'', createdAt = 2000\<rparr>"

definition poet :: project where
  "poet = \<lparr>p_id = ''p3'', name = ''Poet'', systemPrompt = ''Answer in verse.'',
            userId = ''u1'', createdAt = 3000\<rparr>"

definition example_db :: db where
  "example_db =
     \<lparr>connected = True,
      users = [\<lparr>u_id = ''u1'', email = ''a@x.org'', password = ''h1''\<rparr>,
               \<lparr>u_id = ''u2'', email = ''b@x.org'', password = ''h2''\<rparr>],
      projects = [pirate, parrot, poet]\<rparr>"

definition example_verify :: "string \<Rightarrow> exn + oid" where
  "example_verify t =
     (if t = ''tok-u1'' then Inr ''u1''
      else if t = ''tok-u2'' then Inr ''u2''
      else if t = ''tok-old'' then Inl TokenExpiredError
      else Inl JsonWebTokenError)"

definition example_upstream :: "chat_request \<Rightarrow> upstream_outcome" where
  "example_upstream req = Fetch_response (Json_data \<lparr>error = None, choices = [''Arr!'']\<rparr>)"

definition example_post :: "chat_post \<Rightarrow> post_outcome" where
  "example_post req = Post_ok ''Arr!''"

definition example_state :: chat_state where
  "example_state =
     \<lparr>route_projectId = ''p1'', stored_token = Some ''tok-u1'',
      st_messages = [\<lparr>role = ''user'', content = ''hi''\<rparr>],
      input = ''how are you'', isSending = False, selectedFile = None\<rparr>"

definition example_file :: attachment where
  "example_file = \<lparr>file_name = ''notes.txt'', file_type = ''text/plain'', file_bytes = ''SECRET''\<rparr>"

section \<open>Auxiliary facts\<close>

lemma replace_Bearer_tok [simp]:
  "replace ''Bearer '' '''' ''Bearer tok-u1'' = ''tok-u1''"
  "replace ''Bearer '' '''' ''Bearer tok-old'' = ''tok-old''"
  by simp_all

lemma findOne_missing:
  assumes "connected d" and "\<forall>p\<in>set (projects d). p_id p = pid \<longrightarrow> userId p \<noteq> uid"
  shows "Project_findOne d pid uid = Inr None"
  using assms by (auto simp add: Project_findOne_def find_None_iff)

lemma chat_not_found:
  assumes "Project_findOne d (projectId b) uid = Inr None"
  shows "chat upstream d uid b = (d, (404, Message ''Project not found''), [])"
  using assms by (simp add: chat_def chat_try_def)

lemma chat_sent:
  assumes "Project_findOne d (projectId b) uid = Inr (Some p)" and "body_messages b = Some msgs"
  shows "snd (snd (chat upstream d uid b)) =
           [\<lparr>model = ''openai/gpt-3.5-turbo'',
             messages = \<lparr>role = ''system'', content = systemPrompt p\<rparr> # msgs\<rparr>]"
  using assms
  by (simp add: chat_def chat_try_def Let_def
           split: upstream_outcome.splits json_outcome.splits option.splits list.splits)

lemma chat_keeps_store: "fst (chat upstream d uid b) = d"
  by (simp add: chat_def split: prod.splits sum.splits)

lemma sendMessage_posts:
  assumes "\<not> isSending st" and "trim (input st) \<noteq> [] \<or> selectedFile st \<noteq> None"
  shows "\<exists>st' a toasts. sendMessage post st =
           (st', [\<lparr>post_authorization = a,
                   post_form = \<lparr>fd_projectId = route_projectId st,
                                fd_messages = st_messages st @
                                  [\<lparr>role = ''user'',
                                    content = (if input st = []
                                               then ''Please analyze the uploaded file''
                                               else input st)\<rparr>],
                                fd_file = selectedFile st\<rparr>\<rparr>], toasts)"
  using assms by (auto simp add: sendMessage_def Let_def split: post_outcome.splits)

lemma findOne_pirate: "Project_findOne example_db ''p1'' ''u1'' = Inr (Some pirate)"
  by (simp add: Project_findOne_def example_db_def pirate_def)

lemma trim_spaces: "trim ''   '' = []"
  by (simp add: trim_def is_ws_def)

lemma trim_how_are_you: "trim ''how are you'' = ''how are you''"
  by (simp add: trim_def is_ws_def)

section \<open>Properties\<close>

text \<open>
  C1. When the project resolves and the chat page sends a turn with text, the page posts
  the history followed by the new user turn, and the handler, given that array as the
  body's \<^verbatim>\<open>messages\<close>, sends upstream exactly one request whose messages are the system
  turn with the project's prompt, then the history in its order, then the new user turn.
\<close>

theorem relay_message_sequence:
  assumes "Project_findOne d pid uid = Inr (Some p)"
    and "\<not> isSending st"
    and "trim (input st) \<noteq> []"
    and "sendMessage post st = (st', posted, toasts)"
  shows "\<exists>r. posted = [r]
           \<and> fd_messages (post_form r) =
               st_messages st @ [\<lparr>role = ''user'', content = input st\<rparr>]
           \<and> snd (snd (chat upstream d uid
                          \<lparr>projectId = pid,
                           body_messages = Some (fd_messages (post_form r))\<rparr>)) =
               [\<lparr>model = ''openai/gpt-3.5-turbo'',
                 messages = \<lparr>role = ''system'', content = systemPrompt p\<rparr>
                            # st_messages st @ [\<lparr>role = ''user'', content = input st\<rparr>]\<rparr>]"
proof -
  have ne: "input st \<noteq> []"
    using assms(3) by (auto simp add: trim_def)
  let ?r = "\<lambda>a. \<lparr>post_authorization = a,
                  post_form = \<lparr>fd_projectId = route_projectId st,
                               fd_messages = st_messages st @
                                 [\<lparr>role = ''user'', content = input st\<rparr>],
                               fd_file = selectedFile st\<rparr>\<rparr>"
  obtain s a t where "sendMessage post st = (s, [?r a], t)"
    using sendMessage_posts [OF assms(2), of post] assms(3) ne by auto
  with assms(4) have posted: "posted = [?r a]"
    by simp
  show ?thesis
    unfolding posted using assms(1) by (simp add: chat_sent)
qed

theorem relay_message_sequence_witness:
  "Project_findOne example_db ''p1'' ''u1'' = Inr (Some pirate)
   \<and> \<not> isSending example_state
   \<and> trim (input example_state) \<noteq> []
   \<and> (\<exists>r. fst (snd (sendMessage example_post example_state)) = [r]
         \<and> fd_messages (post_form r) =
             [\<lparr>role = ''user'', content = ''hi''\<rparr>, \<lparr>role = ''user'', content = ''how are you''\<rparr>]
         \<and> snd (snd (chat example_upstream example_db ''u1''
                        \<lparr>projectId = ''p1'',
                         body_messages = Some (fd_messages (post_form r))\<rparr>)) =
             [\<lparr>model = ''openai/gpt-3.5-turbo'',
               messages = [\<lparr>role = ''system'', content = ''You are a pirate.''\<rparr>,
                           \<lparr>role = ''user'', content = ''hi''\<rparr>,
                           \<lparr>role = ''user'', content = ''how are you''\<rparr>]\<rparr>])"
proof -
  have h1: "Project_findOne example_db ''p1'' ''u1'' = Inr (Some pirate)"
    by (rule findOne_pirate)
  have h2: "\<not> isSending example_state"
    by (simp add: example_state_def)
  have h3: "trim (input example_state) \<noteq> []"
    by (simp add: example_state_def trim_how_are_you)
  have h4: "sendMessage example_post example_state =
              (fst (sendMessage example_post example_state),
               fst (snd (sendMessage example_post example_state)),
               snd (snd (sendMessage example_post example_state)))"
    by simp
  have "systemPrompt pirate = ''You are a pirate.''"
    by (simp add: pirate_def)
  moreover have "st_messages example_state = [\<lparr>role = ''user'', content = ''hi''\<rparr>]"
    and "input example_state = ''how are you''"
    by (simp_all add: example_state_def)
  ultimately show ?thesis
    using relay_message_sequence [OF h1 h2 h3 h4, of example_upstream] h1 h2 h3 by simp
qed

text \<open>
  C2. On a connected store, a chat call for a project id that no document has and a chat
  call for a project id whose documents all belong to other users get the same answer,
  404 with the message Project not found, and neither reaches the provider.
\<close>

theorem chat_foreign_project_same_as_missing:
  assumes "connected d1" and "connected d2"
    and "\<forall>p\<in>set (projects d1). p_id p \<noteq> projectId b"
    and "\<exists>p\<in>set (projects d2). p_id p = projectId b"
    and "\<forall>p\<in>set (projects d2). p_id p = projectId b \<longrightarrow> userId p \<noteq> uid"
  shows "snd (chat upstream d1 uid b) = ((404, Message ''Project not found''), [])
       \<and> snd (chat upstream d2 uid b) = snd (chat upstream d1 uid b)"
proof -
  have "Project_findOne d1 (projectId b) uid = Inr None"
    using assms(1,3) by (simp add: findOne_missing)
  moreover have "Project_findOne d2 (projectId b) uid = Inr None"
    using assms(2,5) by (simp add: findOne_missing)
  ultimately show ?thesis
    by (simp add: chat_not_found)
qed

theorem chat_foreign_project_same_as_missing_witness:
  "connected (example_db\<lparr>projects := [pirate, poet]\<rparr>) \<and> connected example_db
   \<and> map p_id (projects (example_db\<lparr>projects := [pirate, poet]\<rparr>)) = [''p1'', ''p3'']
   \<and> map (\<lambda>p. (p_id p, userId p)) (projects example_db) =
       [(''p1'', ''u1''), (''p2'', ''u2''), (''p3'', ''u1'')]
   \<and> snd (chat example_upstream (example_db\<lparr>projects := [pirate, poet]\<rparr>) ''u1''
             \<lparr>projectId = ''p2'', body_messages = Some [\<lparr>role = ''user'', content = ''hi''\<rparr>]\<rparr>)
       = ((404, Message ''Project not found''), [])
   \<and> snd (chat example_upstream example_db ''u1''
             \<lparr>projectId = ''p2'', body_messages = Some [\<lparr>role = ''user'', content = ''hi''\<rparr>]\<rparr>)
       = ((404, Message ''Project not found''), [])"
proof -
  let ?b = "\<lparr>projectId = ''p2'', body_messages = Some [\<lparr>role = ''user'', content = ''hi''\<rparr>]\<rparr>"
  have h1: "connected (example_db\<lparr>projects := [pirate, poet]\<rparr>)"
    and h2: "connected example_db"
    by (simp_all add: example_db_def)
  have h3: "\<forall>p\<in>set (projects (example_db\<lparr>projects := [pirate, poet]\<rparr>)). p_id p \<noteq> projectId ?b"
    by (simp add: pirate_def poet_def)
  have h4: "\<exists>p\<in>set (projects example_db). p_id p = projectId ?b"
    by (simp add: example_db_def parrot_def)
  have h5: "\<forall>p\<in>set (projects example_db). p_id p = projectId ?b \<longrightarrow> userId p \<noteq> ''u1''"
    by (simp add: example_db_def pirate_def parrot_def poet_def)
  show ?thesis
    using chat_foreign_project_same_as_missing [OF h1 h2 h3 h4 h5, of example_upstream]
      h1 h2
    by (simp add: example_db_def pirate_def parrot_def poet_def)
qed

text \<open>
  C3. The middleware answers 401 with the message Please authenticate exactly when the
  header is missing, the token left after removing the Bearer prefix is empty, or the
  verification of the token throws, whatever it throws (malformed token, bad signature,
  expired token); it has no other failure answer, and in every other case it passes the
  verified user on. No exception leaves it.
\<close>

theorem auth_failures_one_signal:
  "(auth verify hdr = Inl (401, Message ''Please authenticate'')
      \<longleftrightarrow> (hdr = None
           \<or> (\<exists>h. hdr = Some h
                 \<and> (replace ''Bearer '' '''' h = []
                     \<or> (\<exists>e. verify (replace ''Bearer '' '''' h) = Inl e)))))
   \<and> (\<forall>r. auth verify hdr = Inl r \<longrightarrow> r = (401, Message ''Please authenticate''))
   \<and> (\<forall>uid. auth verify hdr = Inr uid
          \<longrightarrow> (\<exists>h. hdr = Some h \<and> verify (replace ''Bearer '' '''' h) = Inr uid))"
proof -
  let ?unauth = "Inl (401, Message ''Please authenticate'') :: response + oid"
  show ?thesis
  proof (cases hdr)
    case None
    then show ?thesis by (simp add: auth_def auth_try_def)
  next
    case (Some h)
    show ?thesis
    proof (cases "replace ''Bearer '' '''' h = []")
      case True
      with Some show ?thesis by (simp add: auth_def auth_try_def)
    next
      case False
      with Some show ?thesis
        by (cases "verify (replace ''Bearer '' '''' h)") (simp_all add: auth_def auth_try_def)
    qed
  qed
qed


theorem auth_failures_one_signal_witness:
  "auth example_verify None = Inl (401, Message ''Please authenticate'')
   \<and> auth example_verify (Some ''Bearer '') = Inl (401, Message ''Please authenticate'')
   \<and> auth example_verify (Some ''Bearer tok-old'') = Inl (401, Message ''Please authenticate'')
   \<and> auth example_verify (Some ''Bearer tok-u1'') = Inr ''u1''"
proof -
  have old: "example_verify ''tok-old'' = Inl TokenExpiredError"
    by (simp add: example_verify_def)
  have a: "auth example_verify (Some ''Bearer tok-old'') = Inl (401, Message ''Please authenticate'')"
    using auth_failures_one_signal [of example_verify "Some ''Bearer tok-old''", THEN conjunct1] old by simp
  have b: "auth example_verify None = Inl (401, Message ''Please authenticate'')"
    using auth_failures_one_signal [of example_verify None, THEN conjunct1] by simp
  have e: "replace ''Bearer '' '''' ''Bearer '' = []"
    by simp
  have c: "auth example_verify (Some ''Bearer '') = Inl (401, Message ''Please authenticate'')"
    using auth_failures_one_signal [of example_verify "Some ''Bearer ''", THEN conjunct1] e by simp
  have d: "auth example_verify (Some ''Bearer tok-u1'') = Inr ''u1''"
    by (simp add: auth_def auth_try_def example_verify_def)
  from a b c d show ?thesis by simp
qed


text \<open>
  C4. On a connected store the project list of a user is answered with 200 and a list that
  holds exactly that user's documents, each as often as the collection does and no
  other document, in descending order of creation time.
\<close>

theorem get_projects_owned_newest_first:
  assumes "connected d"
  shows "\<exists>ps. get_projects d uid = (200, Projects_json ps)
            \<and> mset ps = mset (filter (\<lambda>p. userId p = uid) (projects d))
            \<and> set ps = {p \<in> set (projects d). userId p = uid}
            \<and> sorted_wrt (\<lambda>a b. createdAt b \<le> createdAt a) ps"
proof -
  let ?own = "filter (\<lambda>p. userId p = uid) (projects d)"
  let ?ps = "sort_key (\<lambda>p. - createdAt p) ?own"
  have "get_projects d uid = (200, Projects_json ?ps)"
    using assms by (simp add: get_projects_def Project_find_sorted_def)
  moreover have "mset ?ps = mset ?own"
    by simp
  moreover have "set ?ps = {p \<in> set (projects d). userId p = uid}"
    by simp
  moreover have "sorted_wrt (\<lambda>a b. createdAt b \<le> createdAt a) ?ps"
  proof -
    have "sorted (map (\<lambda>p. - createdAt p) ?ps)"
      by (rule sorted_sort_key)
    then show ?thesis
      by (simp add: sorted_map)
  qed
  ultimately show ?thesis
    by blast
qed

theorem get_projects_owned_newest_first_witness:
  "connected example_db
   \<and> get_projects example_db ''u1'' = (200, Projects_json [poet, pirate])
   \<and> (\<exists>ps. get_projects example_db ''u1'' = (200, Projects_json ps)
          \<and> mset ps = mset (filter (\<lambda>p. userId p = ''u1'') (projects example_db))
          \<and> set ps = {p \<in> set (projects example_db). userId p = ''u1''}
          \<and> sorted_wrt (\<lambda>a b. createdAt b \<le> createdAt a) ps)"
proof -
  have h: "connected example_db"
    by (simp add: example_db_def)
  have "get_projects example_db ''u1'' = (200, Projects_json [poet, pirate])"
    by (simp add: get_projects_def Project_find_sorted_def example_db_def
          pirate_def parrot_def poet_def)
  with h get_projects_owned_newest_first [OF h, of "''u1''"] show ?thesis
    by blast
qed

text \<open>
  C5, as the code has it. A creation request whose name or system prompt is absent or the
  empty string is answered 500 Server error and leaves the store as it was; on a
  connected store a request whose two fields are non-empty strings, white space
  included and untrimmed, appends a project owned by the requesting user and is
  answered 201 with it; every body that the dashboard's form submits is of that kind.
\<close>

theorem post_projects_required_untrimmed:
  "((b_name b = None \<or> b_name b = Some [] \<or> b_systemPrompt b = None
       \<or> b_systemPrompt b = Some [])
      \<longrightarrow> post_projects new_id now d uid b = (d, (500, Message ''Server error'')))
   \<and> (\<forall>n s. connected d \<and> b_name b = Some n \<and> n \<noteq> [] \<and> b_systemPrompt b = Some s \<and> s \<noteq> []
          \<longrightarrow> post_projects new_id now d uid b =
                (d\<lparr>projects := projects d @
                     [\<lparr>p_id = new_id, name = n, systemPrompt = s, userId = uid,
                       createdAt = now\<rparr>]\<rparr>,
                 (201, Project_json \<lparr>p_id = new_id, name = n, systemPrompt = s, userId = uid,
                                     createdAt = now\<rparr>)))
   \<and> (\<forall>np b'. connected d \<and> submit_form np = Some b'
          \<longrightarrow> post_projects new_id now d uid b' =
                (d\<lparr>projects := projects d @
                     [\<lparr>p_id = new_id, name = np_name np, systemPrompt = np_systemPrompt np,
                       userId = uid, createdAt = now\<rparr>]\<rparr>,
                 (201, Project_json \<lparr>p_id = new_id, name = np_name np,
                                     systemPrompt = np_systemPrompt np, userId = uid,
                                     createdAt = now\<rparr>)))"
proof (intro conjI allI impI)
  assume "b_name b = None \<or> b_name b = Some [] \<or> b_systemPrompt b = None
            \<or> b_systemPrompt b = Some []"
  then show "post_projects new_id now d uid b = (d, (500, Message ''Server error''))"
    by (auto simp add: post_projects_def Project_save_def required_def
          split: option.splits sum.splits)
next
  fix n s
  assume "connected d \<and> b_name b = Some n \<and> n \<noteq> [] \<and> b_systemPrompt b = Some s \<and> s \<noteq> []"
  then show "post_projects new_id now d uid b =
                (d\<lparr>projects := projects d @
                     [\<lparr>p_id = new_id, name = n, systemPrompt = s, userId = uid,
                       createdAt = now\<rparr>]\<rparr>,
                 (201, Project_json \<lparr>p_id = new_id, name = n, systemPrompt = s, userId = uid,
                                     createdAt = now\<rparr>))"
    by (simp add: post_projects_def Project_save_def required_def Let_def)
next
  fix np b'
  assume a: "connected d \<and> submit_form np = Some b'"
  then have "np_name np \<noteq> []" and "np_systemPrompt np \<noteq> []"
    and "b' = \<lparr>b_name = Some (np_name np), b_systemPrompt = Some (np_systemPrompt np)\<rparr>"
    by (auto simp add: submit_form_def split: if_splits)
  with a show "post_projects new_id now d uid b' =
                (d\<lparr>projects := projects d @
                     [\<lparr>p_id = new_id, name = np_name np, systemPrompt = np_systemPrompt np,
                       userId = uid, createdAt = now\<rparr>]\<rparr>,
                 (201, Project_json \<lparr>p_id = new_id, name = np_name np,
                                     systemPrompt = np_systemPrompt np, userId = uid,
                                     createdAt = now\<rparr>))"
    by (simp add: post_projects_def Project_save_def required_def Let_def)
qed

theorem post_projects_required_untrimmed_witness:
  "post_projects ''p9'' 4000 example_db ''u1'' \<lparr>b_name = Some [], b_systemPrompt = Some ''Be brief.''\<rparr>
     = (example_db, (500, Message ''Server error''))
   \<and> post_projects ''p9'' 4000 example_db ''u1''
        \<lparr>b_name = Some ''Brief'', b_systemPrompt = Some ''Be brief.''\<rparr>
     = (example_db\<lparr>projects := projects example_db @
          [\<lparr>p_id = ''p9'', name = ''Brief'', systemPrompt = ''Be brief.'', userId = ''u1'',
            createdAt = 4000\<rparr>]\<rparr>,
        (201, Project_json \<lparr>p_id = ''p9'', name = ''Brief'', systemPrompt = ''Be brief.'',
                            userId = ''u1'', createdAt = 4000\<rparr>))
   \<and> submit_form \<lparr>np_name = ''Brief'', np_systemPrompt = ''Be brief.''\<rparr>
     = Some \<lparr>b_name = Some ''Brief'', b_systemPrompt = Some ''Be brief.''\<rparr>"
proof -
  have c: "connected example_db"
    by (simp add: example_db_def)
  have s: "submit_form \<lparr>np_name = ''Brief'', np_systemPrompt = ''Be brief.''\<rparr>
             = Some \<lparr>b_name = Some ''Brief'', b_systemPrompt = Some ''Be brief.''\<rparr>"
    by (simp add: submit_form_def)
  have 1: "post_projects ''p9'' 4000 example_db ''u1''
             \<lparr>b_name = Some [], b_systemPrompt = Some ''Be brief.''\<rparr>
           = (example_db, (500, Message ''Server error''))"
    using post_projects_required_untrimmed
            [of "\<lparr>b_name = Some [], b_systemPrompt = Some ''Be brief.''\<rparr>"
                "''p9''" 4000 example_db "''u1''", THEN conjunct1]
    by simp
  have 2: "post_projects ''p9'' 4000 example_db ''u1''
             \<lparr>b_name = Some ''Brief'', b_systemPrompt = Some ''Be brief.''\<rparr>
           = (example_db\<lparr>projects := projects example_db @
                [\<lparr>p_id = ''p9'', name = ''Brief'', systemPrompt = ''Be brief.'', userId = ''u1'',
                  createdAt = 4000\<rparr>]\<rparr>,
              (201, Project_json \<lparr>p_id = ''p9'', name = ''Brief'', systemPrompt = ''Be brief.'',
                                  userId = ''u1'', createdAt = 4000\<rparr>))"
    using post_projects_required_untrimmed
            [of "\<lparr>b_name = Some ''Brief'', b_systemPrompt = Some ''Be brief.''\<rparr>"
                "''p9''" 4000 example_db "''u1''", THEN conjunct2, THEN conjunct1] c
    by simp
  from 1 2 s show ?thesis
    by simp
qed

text \<open>
  C5 as stated fails: a name of three spaces is empty after trimming, yet the request
  creates a project and is answered 201.
\<close>

theorem post_projects_blank_name_counterexample:
  "trim ''   '' = []
   \<and> post_projects ''p9'' 4000 example_db ''u1''
        \<lparr>b_name = Some ''   '', b_systemPrompt = Some ''Be brief.''\<rparr>
     = (example_db\<lparr>projects := projects example_db @
          [\<lparr>p_id = ''p9'', name = ''   '', systemPrompt = ''Be brief.'', userId = ''u1'',
            createdAt = 4000\<rparr>]\<rparr>,
        (201, Project_json \<lparr>p_id = ''p9'', name = ''   '', systemPrompt = ''Be brief.'',
                            userId = ''u1'', createdAt = 4000\<rparr>))"
  by (simp add: trim_spaces post_projects_def Project_save_def required_def example_db_def Let_def)

text \<open>
  C6, as the code has it. The handler checks neither the roles nor the number of the
  turns it is given: once the project resolves, the whole array, whatever it holds, is
  sent after the system turn in one request, and the answer is 200 or 500. What is
  detected before any request goes upstream is the project that does not resolve (404).
\<close>

theorem chat_forwards_history_unvalidated:
  "(Project_findOne d (projectId b) uid = Inr (Some p) \<and> body_messages b = Some msgs
      \<longrightarrow> snd (snd (chat upstream d uid b)) =
            [\<lparr>model = ''openai/gpt-3.5-turbo'',
              messages = \<lparr>role = ''system'', content = systemPrompt p\<rparr> # msgs\<rparr>]
          \<and> fst (fst (snd (chat upstream d uid b))) \<in> {200, 500})
   \<and> (Project_findOne d (projectId b) uid = Inr None
      \<longrightarrow> chat upstream d uid b = (d, (404, Message ''Project not found''), []))"
proof (intro conjI impI)
  assume a: "Project_findOne d (projectId b) uid = Inr (Some p) \<and> body_messages b = Some msgs"
  then show "snd (snd (chat upstream d uid b)) =
            [\<lparr>model = ''openai/gpt-3.5-turbo'',
              messages = \<lparr>role = ''system'', content = systemPrompt p\<rparr> # msgs\<rparr>]"
    by (simp add: chat_sent)
  from a show "fst (fst (snd (chat upstream d uid b))) \<in> {200, 500}"
    by (simp add: chat_def chat_try_def Let_def
          split: upstream_outcome.splits json_outcome.splits option.splits list.splits)
next
  assume "Project_findOne d (projectId b) uid = Inr None"
  then show "chat upstream d uid b = (d, (404, Message ''Project not found''), [])"
    by (rule chat_not_found)
qed

theorem chat_forwards_history_unvalidated_witness:
  "Project_findOne example_db ''p1'' ''u1'' = Inr (Some pirate)
   \<and> snd (snd (chat example_upstream example_db ''u1''
                  \<lparr>projectId = ''p1'',
                   body_messages = Some (replicate 3 \<lparr>role = ''tool'', content = ''x''\<rparr>)\<rparr>)) =
       [\<lparr>model = ''openai/gpt-3.5-turbo'',
         messages = [\<lparr>role = ''system'', content = ''You are a pirate.''\<rparr>,
                     \<lparr>role = ''tool'', content = ''x''\<rparr>, \<lparr>role = ''tool'', content = ''x''\<rparr>,
                     \<lparr>role = ''tool'', content = ''x''\<rparr>]\<rparr>]"
proof -
  let ?b = "\<lparr>projectId = ''p1'',
             body_messages = Some (replicate 3 \<lparr>role = ''tool'', content = ''x''\<rparr>)\<rparr>"
  have h: "Project_findOne example_db (projectId ?b) ''u1'' = Inr (Some pirate)"
    by (simp add: findOne_pirate)
  have m: "body_messages ?b = Some (replicate 3 \<lparr>role = ''tool'', content = ''x''\<rparr>)"
    by simp
  have r: "replicate 3 \<lparr>role = ''tool'', content = ''x''\<rparr> =
             [\<lparr>role = ''tool'', content = ''x''\<rparr>, \<lparr>role = ''tool'', content = ''x''\<rparr>,
              \<lparr>role = ''tool'', content = ''x''\<rparr>]"
    by (simp add: numeral_3_eq_3)
  have "systemPrompt pirate = ''You are a pirate.''"
    by (simp add: pirate_def)
  with chat_forwards_history_unvalidated
         [of example_db ?b "''u1''" pirate "replicate 3 \<lparr>role = ''tool'', content = ''x''\<rparr>"
             example_upstream, THEN conjunct1] h m r
  show ?thesis
    by (simp add: findOne_pirate)
qed

text \<open>
  C6 as stated fails: a turn whose role is neither user nor assistant is not rejected; it
  goes upstream and the call is answered 200.
\<close>

theorem chat_unknown_role_counterexample:
  "chat example_upstream example_db ''u1''
     \<lparr>projectId = ''p1'', body_messages = Some [\<lparr>role = ''tool'', content = ''x''\<rparr>]\<rparr>
   = (example_db, (200, Message ''Arr!''),
      [\<lparr>model = ''openai/gpt-3.5-turbo'',
        messages = [\<lparr>role = ''system'', content = ''You are a pirate.''\<rparr>,
                    \<lparr>role = ''tool'', content = ''x''\<rparr>]\<rparr>])"
  by (simp add: chat_def chat_try_def findOne_pirate example_upstream_def pirate_def)


text \<open>
  C7, as the code has it. In the chat page, while no turn is being sent: with an empty text
  and a selected file, \<^verbatim>\<open>sendMessage\<close> posts one request whose last turn is the user
  turn with the text Please analyze the uploaded file, the file attached; with a text
  that is empty or all white space and no file, \<^verbatim>\<open>sendMessage\<close> returns at once, posts
  nothing, raises no toast and leaves the state as it was.
\<close>

theorem sendMessage_empty_text:
  assumes "\<not> isSending st"
  shows "(input st = [] \<and> selectedFile st = Some f
            \<longrightarrow> (\<exists>st' a toasts. sendMessage post st =
                   (st', [\<lparr>post_authorization = a,
                           post_form = \<lparr>fd_projectId = route_projectId st,
                                        fd_messages = st_messages st @
                                          [\<lparr>role = ''user'',
                                            content = ''Please analyze the uploaded file''\<rparr>],
                                        fd_file = Some f\<rparr>\<rparr>], toasts)))
       \<and> (trim (input st) = [] \<and> selectedFile st = None
            \<longrightarrow> sendMessage post st = (st, [], []))"
proof (intro conjI impI)
  assume a: "input st = [] \<and> selectedFile st = Some f"
  then have "trim (input st) \<noteq> [] \<or> selectedFile st \<noteq> None"
    by simp
  from sendMessage_posts [OF assms this, of post] a
  show "\<exists>st' a toasts. sendMessage post st =
                   (st', [\<lparr>post_authorization = a,
                           post_form = \<lparr>fd_projectId = route_projectId st,
                                        fd_messages = st_messages st @
                                          [\<lparr>role = ''user'',
                                            content = ''Please analyze the uploaded file''\<rparr>],
                                        fd_file = Some f\<rparr>\<rparr>], toasts)"
    by simp
next
  assume "trim (input st) = [] \<and> selectedFile st = None"
  then show "sendMessage post st = (st, [], [])"
    by (simp add: sendMessage_def)
qed

theorem sendMessage_empty_text_witness:
  "\<not> isSending example_state
   \<and> (\<exists>st' a toasts.
         sendMessage example_post (example_state\<lparr>input := [], selectedFile := Some example_file\<rparr>) =
         (st', [\<lparr>post_authorization = a,
                 post_form = \<lparr>fd_projectId = ''p1'',
                              fd_messages =
                                [\<lparr>role = ''user'', content = ''hi''\<rparr>,
                                 \<lparr>role = ''user'',
                                  content = ''Please analyze the uploaded file''\<rparr>],
                              fd_file = Some example_file\<rparr>\<rparr>], toasts))
   \<and> sendMessage example_post (example_state\<lparr>input := ''  ''\<rparr>) =
       (example_state\<lparr>input := ''  ''\<rparr>, [], [])"
proof -
  let ?s1 = "example_state\<lparr>input := [], selectedFile := Some example_file\<rparr>"
  let ?s2 = "example_state\<lparr>input := ''  ''\<rparr>"
  have h1: "\<not> isSending ?s1" and h2: "\<not> isSending ?s2" and h0: "\<not> isSending example_state"
    by (simp_all add: example_state_def)
  have t: "trim (input ?s2) = []"
    by (simp add: trim_def is_ws_def)
  have n: "selectedFile ?s2 = None"
    by (simp add: example_state_def)
  have 1: "\<exists>st' a toasts. sendMessage example_post ?s1 =
         (st', [\<lparr>post_authorization = a,
                 post_form = \<lparr>fd_projectId = ''p1'',
                              fd_messages =
                                [\<lparr>role = ''user'', content = ''hi''\<rparr>,
                                 \<lparr>role = ''user'',
                                  content = ''Please analyze the uploaded file''\<rparr>],
                              fd_file = Some example_file\<rparr>\<rparr>], toasts)"
    using sendMessage_empty_text [OF h1, of example_file example_post, THEN conjunct1]
    by (simp add: example_state_def)
  have 2: "sendMessage example_post ?s2 = (?s2, [], [])"
    using sendMessage_empty_text [OF h2, of example_file example_post, THEN conjunct2] t n
    by simp
  from h0 1 2 show ?thesis
    by blast
qed

text \<open>
  C7 as stated fails on the handler: a call whose new user turn has an empty text and which
  carries no file is not rejected; the turn goes upstream and the call is answered 200.
\<close>

theorem route_chat_empty_turn_counterexample:
  "route_chat Express_5 example_verify example_upstream example_db
     \<lparr>authorization = Some ''Bearer tok-u1'',
      payload = Json_payload
        \<lparr>projectId = ''p1'', body_messages = Some [\<lparr>role = ''user'', content = []\<rparr>]\<rparr>\<rparr>
   = (example_db, (200, Message ''Arr!''),
      [\<lparr>model = ''openai/gpt-3.5-turbo'',
        messages = [\<lparr>role = ''system'', content = ''You are a pirate.''\<rparr>,
                    \<lparr>role = ''user'', content = []\<rparr>]\<rparr>])
   \<and> route_chat Express_4 example_verify example_upstream example_db
     \<lparr>authorization = Some ''Bearer tok-u1'',
      payload = Json_payload
        \<lparr>projectId = ''p1'', body_messages = Some [\<lparr>role = ''user'', content = []\<rparr>]\<rparr>\<rparr>
   = (example_db, (200, Message ''Arr!''),
      [\<lparr>model = ''openai/gpt-3.5-turbo'',
        messages = [\<lparr>role = ''system'', content = ''You are a pirate.''\<rparr>,
                    \<lparr>role = ''user'', content = []\<rparr>]\<rparr>])"
  by (simp add: route_chat_def express_json_def chat_handler_def auth_def auth_try_def
        example_verify_def chat_def chat_try_def findOne_pirate example_upstream_def pirate_def)




text \<open>
  C9, as the code has it. The handler sets no time limit and has no answer of its own for
  a timeout: when the request to the provider is rejected, for whatever reason, the
  caller gets 500 Failed to get response, that one request is all that was sent, and the
  store is as before. In every case the handler sends at most one request upstream and
  leaves the store unchanged.
\<close>

theorem chat_upstream_failure_no_retry:
  "(Project_findOne d (projectId b) uid = Inr (Some p) \<and> body_messages b = Some msgs
      \<and> upstream \<lparr>model = ''openai/gpt-3.5-turbo'',
                   messages = \<lparr>role = ''system'', content = systemPrompt p\<rparr> # msgs\<rparr>
          = Fetch_rejected e
      \<longrightarrow> chat upstream d uid b =
            (d, (500, Message ''Failed to get response''),
             [\<lparr>model = ''openai/gpt-3.5-turbo'',
               messages = \<lparr>role = ''system'', content = systemPrompt p\<rparr> # msgs\<rparr>]))
   \<and> length (snd (snd (chat upstream d uid b))) \<le> 1
   \<and> fst (chat upstream d uid b) = d"
proof (intro conjI impI)
  assume "Project_findOne d (projectId b) uid = Inr (Some p) \<and> body_messages b = Some msgs
      \<and> upstream \<lparr>model = ''openai/gpt-3.5-turbo'',
                   messages = \<lparr>role = ''system'', content = systemPrompt p\<rparr> # msgs\<rparr>
          = Fetch_rejected e"
  then show "chat upstream d uid b =
            (d, (500, Message ''Failed to get response''),
             [\<lparr>model = ''openai/gpt-3.5-turbo'',
               messages = \<lparr>role = ''system'', content = systemPrompt p\<rparr> # msgs\<rparr>])"
    by (simp add: chat_def chat_try_def)
next
  show "length (snd (snd (chat upstream d uid b))) \<le> 1"
    by (simp add: chat_def chat_try_def Let_def
          split: sum.splits upstream_outcome.splits json_outcome.splits option.splits
            list.splits)
next
  show "fst (chat upstream d uid b) = d"
    by (rule chat_keeps_store)
qed

theorem chat_upstream_failure_no_retry_witness:
  "chat (\<lambda>req. Fetch_rejected FetchTimedOut) example_db ''u1''
     \<lparr>projectId = ''p1'', body_messages = Some [\<lparr>role = ''user'', content = ''hi''\<rparr>]\<rparr>
   = (example_db, (500, Message ''Failed to get response''),
      [\<lparr>model = ''openai/gpt-3.5-turbo'',
        messages = [\<lparr>role = ''system'', content = ''You are a pirate.''\<rparr>,
                    \<lparr>role = ''user'', content = ''hi''\<rparr>]\<rparr>])"
proof -
  let ?b = "\<lparr>projectId = ''p1'', body_messages = Some [\<lparr>role = ''user'', content = ''hi''\<rparr>]\<rparr>"
  have h: "Project_findOne example_db (projectId ?b) ''u1'' = Inr (Some pirate)"
    by (simp add: findOne_pirate)
  have "systemPrompt pirate = ''You are a pirate.''"
    by (simp add: pirate_def)
  with chat_upstream_failure_no_retry
         [of example_db ?b "''u1''" pirate "[\<lparr>role = ''user'', content = ''hi''\<rparr>]"
             "\<lambda>req. Fetch_rejected FetchTimedOut" FetchTimedOut, THEN conjunct1] h
  show ?thesis
    by simp
qed

text \<open>
  C9 as stated fails: a call whose request to the provider times out is answered with the
  very response of a call whose request fails on the network, 500 Failed to get
  response; no timeout signal of its own reaches the caller.
\<close>

theorem chat_timeout_counterexample:
  "snd (chat (\<lambda>req. Fetch_rejected FetchTimedOut) example_db ''u1''
          \<lparr>projectId = ''p1'', body_messages = Some [\<lparr>role = ''user'', content = ''hi''\<rparr>]\<rparr>)
   = ((500, Message ''Failed to get response''),
      [\<lparr>model = ''openai/gpt-3.5-turbo'',
        messages = [\<lparr>role = ''system'', content = ''You are a pirate.''\<rparr>,
                    \<lparr>role = ''user'', content = ''hi''\<rparr>]\<rparr>])
   \<and> fst (snd (chat (\<lambda>req. Fetch_rejected FetchTimedOut) example_db ''u1''
          \<lparr>projectId = ''p1'', body_messages = Some [\<lparr>role = ''user'', content = ''hi''\<rparr>]\<rparr>))
   = fst (snd (chat (\<lambda>req. Fetch_rejected FetchFailed) example_db ''u1''
          \<lparr>projectId = ''p1'', body_messages = Some [\<lparr>role = ''user'', content = ''hi''\<rparr>]\<rparr>))"
  by (simp add: chat_def chat_try_def findOne_pirate pirate_def)

text \<open>
  C10. Whenever the text is empty or all white space, the Send button is disabled and a
  click on it does nothing, with or without a selected file; with an empty text, a
  selected file and no turn being sent, Enter without Shift in the text area posts the
  turn with the text Please analyze the uploaded file and the file.
\<close>

theorem send_disabled_on_blank_text:
  "(trim (input st) = [] \<longrightarrow> send_disabled st \<and> click_send post st = (st, [], []))
   \<and> (input st = [] \<and> selectedFile st = Some f \<and> \<not> isSending st
        \<longrightarrow> (\<exists>st' a toasts. handleKeyDown post st ''Enter'' False =
               (st', [\<lparr>post_authorization = a,
                       post_form = \<lparr>fd_projectId = route_projectId st,
                                    fd_messages = st_messages st @
                                      [\<lparr>role = ''user'',
                                        content = ''Please analyze the uploaded file''\<rparr>],
                                    fd_file = Some f\<rparr>\<rparr>], toasts)))"
proof (intro conjI impI)
  assume "trim (input st) = []"
  then show "send_disabled st" and "click_send post st = (st, [], [])"
    by (simp_all add: send_disabled_def click_send_def)
next
  assume a: "input st = [] \<and> selectedFile st = Some f \<and> \<not> isSending st"
  then have "\<not> isSending st" and "trim (input st) \<noteq> [] \<or> selectedFile st \<noteq> None"
    by simp_all
  from sendMessage_posts [OF this, of post] a
  show "\<exists>st' a toasts. handleKeyDown post st ''Enter'' False =
               (st', [\<lparr>post_authorization = a,
                       post_form = \<lparr>fd_projectId = route_projectId st,
                                    fd_messages = st_messages st @
                                      [\<lparr>role = ''user'',
                                        content = ''Please analyze the uploaded file''\<rparr>],
                                    fd_file = Some f\<rparr>\<rparr>], toasts)"
    by (simp add: handleKeyDown_def)
qed

theorem send_disabled_on_blank_text_witness:
  "send_disabled (example_state\<lparr>input := [], selectedFile := Some example_file\<rparr>)
   \<and> click_send example_post (example_state\<lparr>input := [], selectedFile := Some example_file\<rparr>)
       = (example_state\<lparr>input := [], selectedFile := Some example_file\<rparr>, [], [])
   \<and> (\<exists>st' a toasts.
         handleKeyDown example_post
           (example_state\<lparr>input := [], selectedFile := Some example_file\<rparr>) ''Enter'' False =
         (st', [\<lparr>post_authorization = a,
                 post_form = \<lparr>fd_projectId = ''p1'',
                              fd_messages =
                                [\<lparr>role = ''user'', content = ''hi''\<rparr>,
                                 \<lparr>role = ''user'',
                                  content = ''Please analyze the uploaded file''\<rparr>],
                              fd_file = Some example_file\<rparr>\<rparr>], toasts))"
proof -
  let ?s = "example_state\<lparr>input := [], selectedFile := Some example_file\<rparr>"
  have t: "trim (input ?s) = []"
    by (simp add: trim_def)
  have h: "input ?s = [] \<and> selectedFile ?s = Some example_file \<and> \<not> isSending ?s"
    by (simp add: example_state_def)
  have 1: "send_disabled ?s \<and> click_send example_post ?s = (?s, [], [])"
    using send_disabled_on_blank_text [of ?s example_post example_file, THEN conjunct1] t
    by blast
  have 2: "\<exists>st' a toasts. handleKeyDown example_post ?s ''Enter'' False =
         (st', [\<lparr>post_authorization = a,
                 post_form = \<lparr>fd_projectId = ''p1'',
                              fd_messages =
                                [\<lparr>role = ''user'', content = ''hi''\<rparr>,
                                 \<lparr>role = ''user'',
                                  content = ''Please analyze the uploaded file''\<rparr>],
                              fd_file = Some example_file\<rparr>\<rparr>], toasts)"
    using send_disabled_on_blank_text [of ?s example_post example_file, THEN conjunct2] h
    by (simp add: example_state_def)
  from 1 2 show ?thesis
    by blast
qed

end
